theory Spec2Isabelle
  imports Main
begin

section \<open>Nimbus: a temporary file store over HTTP\<close>

text \<open>
  A shallow embedding of the newest \<open>NimbusHTTPFormImpl\<close> (the third variant in
  \<open>zipper.go\<close>, from \<open>tmpFilePath\<close> to \<open>Delete\<close>) and of \<open>Zipper\<close>.
  Go strings and byte slices are sequences of bytes; \<open>char\<close> is an 8-bit character, so both
  are \<open>string\<close> here. The copy buffer size is a \<open>nat\<close>: a negative \<open>tBuffSize\<close>, where
  \<open>make\<close> panics, is outside the model.
\<close>

subsection \<open>Errors\<close>

datatype error =
    EOF
  | ErrNoExt
  | ErrExtNotPermitted
  | ErrFormFile
  | PathError string string string
  | ErrExist
  | ErrLongName
  | ErrIO string

text \<open>
  The \<open>Error()\<close> string of each error value. A \<open>PathError\<close> holds the operation, the
  path as it was passed, and the reason the operating system gave.
\<close>

fun Error :: "error \<Rightarrow> string" where
  "Error EOF = ''EOF''"
| "Error ErrNoExt = ''no-extension files not permitted''"
| "Error ErrExtNotPermitted = ''file extension not permitted''"
| "Error ErrFormFile = ''failed to obtain file from request''"
| "Error (PathError opn p reason) = opn @ '' '' @ p @ '': '' @ reason"
| "Error ErrExist = ''file exists''"
| "Error ErrLongName = ''zip: FileHeader.Name too long''"
| "Error (ErrIO msg) = msg"

definition ENOENT :: string where
  "ENOENT = ''no such file or directory''"

definition EISDIR :: string where
  "EISDIR = ''is a directory''"

definition ENOTDIR :: string where
  "ENOTDIR = ''not a directory''"

definition EINVAL :: string where
  "EINVAL = ''invalid argument''"

definition ENOTEMPTY :: string where
  "ENOTEMPTY = ''directory not empty''"

subsection \<open>Standard library: \<open>path.Base\<close>, \<open>filepath.Ext\<close>\<close>

definition slash :: char where
  "slash = CHR ''/''"

definition stripTrailingSlashes :: "string \<Rightarrow> string" where
  "stripTrailingSlashes p = rev (dropWhile (\<lambda>c. c = slash) (rev p))"

definition lastElement :: "string \<Rightarrow> string" where
  "lastElement p = rev (takeWhile (\<lambda>c. c \<noteq> slash) (rev p))"

text \<open>
  \<open>path.Base\<close>: the empty path gives \<open>.\<close>; trailing slashes are stripped; the part after
  the last slash is kept; a path of slashes only gives \<open>/\<close>.
\<close>

definition Base :: "string \<Rightarrow> string" where
  "Base p =
     (if p = [] then ''.''
      else let q = lastElement (stripTrailingSlashes p)
           in if q = [] then ''/'' else q)"

text \<open>
  \<open>filepath.Ext\<close>: scanning from the end, stop at a path separator; the suffix from the
  first dot met (the last dot of the final element) is the extension, else it is empty.
  \<open>ExtScan\<close> walks the reversed path, \<open>acc\<close> being the characters already passed.
\<close>

fun ExtScan :: "string \<Rightarrow> string \<Rightarrow> string" where
  "ExtScan [] acc = []"
| "ExtScan (c # cs) acc =
     (if c = slash then []
      else if c = CHR ''.'' then c # acc
      else ExtScan cs (c # acc))"

definition Ext :: "string \<Rightarrow> string" where
  "Ext p = ExtScan (rev p) []"

subsection \<open>The file system\<close>

text \<open>
  What is stored under a path is a regular file with its bytes, or a directory. The operating
  system does not tell \<open>d/x\<close> from \<open>d//x\<close> or \<open>d/./x\<close>, and \<open>d/.\<close>, \<open>d//\<close> and \<open>d/..\<close> name
  the directory \<open>d\<close> and its parent. So the file system is a map whose keys are paths in the
  normal form of \<open>path.Clean\<close>, and every path is looked up by its normal form: empty and
  \<open>.\<close> elements are dropped, a \<open>..\<close> element removes the element before it (at the root it
  is dropped, at the front of a relative path it stays). This is resolution without symbolic
  links, with every path above the last element taken to be a directory.
\<close>

fun components :: "string \<Rightarrow> string list" where
  "components [] = [[]]"
| "components (c # cs) =
     (if c = slash then [] # components cs
      else (case components cs of
              [] \<Rightarrow> [[c]]
            | x # xs \<Rightarrow> (c # x) # xs))"

definition isRooted :: "string \<Rightarrow> bool" where
  "isRooted p = (case p of [] \<Rightarrow> False | c # cs \<Rightarrow> c = slash)"

definition cleanStep :: "bool \<Rightarrow> string list \<Rightarrow> string \<Rightarrow> string list" where
  "cleanStep rooted st c =
     (if c = [] \<or> c = ''.'' then st
      else if c = ''..''
        then (if st \<noteq> [] \<and> last st \<noteq> ''..'' then butlast st
              else if rooted then st
              else st @ [c])
      else st @ [c])"

definition cleanStack :: "string \<Rightarrow> string list" where
  "cleanStack p = foldl (cleanStep (isRooted p)) [] (components p)"

fun joinSlash :: "string list \<Rightarrow> string" where
  "joinSlash [] = []"
| "joinSlash [x] = x"
| "joinSlash (x # y # ys) = x @ ''/'' @ joinSlash (y # ys)"

definition Clean :: "string \<Rightarrow> string" where
  "Clean p =
     (if isRooted p then ''/'' @ joinSlash (cleanStack p)
      else if cleanStack p = [] then ''.''
      else joinSlash (cleanStack p))"

datatype node = RegularFile string | Directory

type_synonym fs = "string \<rightharpoonup> node"

definition fsLookup :: "fs \<Rightarrow> string \<Rightarrow> node option" where
  "fsLookup files p = files (Clean p)"


text \<open>
  A name that is one path element and names an entry of a directory: not empty, without
  separator, and neither \<open>.\<close> nor \<open>..\<close>.
\<close>

definition plainName :: "string \<Rightarrow> bool" where
  "plainName e = (e \<noteq> [] \<and> slash \<notin> set e \<and> e \<noteq> ''.'' \<and> e \<noteq> ''..'')"

subsection \<open>The store\<close>

record NimbusHTTPFormImpl =
  maxSize :: int
  tBuffSize :: nat
  dfk :: string
  mimeCache :: "string \<rightharpoonup> string list"
  tmpDir :: string
  allowedExtensions :: "string list"
  allowNoExt :: bool

definition ExtAll :: "string list" where
  "ExtAll = [''_all_'']"

definition NewHTTPFormImpl ::
  "string \<Rightarrow> int \<Rightarrow> nat \<Rightarrow> string \<Rightarrow> string list \<Rightarrow> bool \<Rightarrow> NimbusHTTPFormImpl" where
  "NewHTTPFormImpl k m b d exts noext =
     \<lparr>maxSize = m, tBuffSize = b, dfk = k, mimeCache = Map.empty, tmpDir = d,
      allowedExtensions = exts, allowNoExt = noext\<rparr>"

definition tmpFilePath :: "NimbusHTTPFormImpl \<Rightarrow> string \<Rightarrow> string" where
  "tmpFilePath n name = tmpDir n @ ''/'' @ Base name"

text \<open>The \<open>for ... range\<close> loop of \<open>isExtAllowed\<close>, with its \<open>break\<close>.\<close>

fun extLoop :: "string \<Rightarrow> string list \<Rightarrow> bool" where
  "extLoop ext [] = False"
| "extLoop ext (e # es) = (if ext = e then True else extLoop ext es)"

definition isExtAllowed :: "NimbusHTTPFormImpl \<Rightarrow> string \<Rightarrow> error option" where
  "isExtAllowed n ext =
     (if ext = [] \<and> \<not> allowNoExt n then Some ErrNoExt
      else if length (allowedExtensions n) = 1 \<and> allowedExtensions n ! 0 = ''_all_''
        then None
      else if \<not> extLoop ext (allowedExtensions n) then Some ErrExtNotPermitted
      else None)"

subsection \<open>Readers and writers\<close>

text \<open>
  An \<open>io.Reader\<close> is a step function on a state: \<open>Read\<close> called with a buffer of length
  \<open>b\<close> returns the bytes it read (the \<open>n\<close> of the source is their number), an optional error,
  and the next state. An \<open>io.Writer\<close> takes the bytes and returns the next state with an
  optional error.
\<close>

type_synonym 's Reader = "'s \<Rightarrow> nat \<Rightarrow> (string \<times> error option) \<times> 's"

type_synonym 'w Writer = "'w \<Rightarrow> string \<Rightarrow> 'w \<times> error option"

text \<open>
  Reading an \<open>os.File\<close>, the state being the bytes not yet read: a zero-length buffer reads
  nothing and reports no error; at the end of the file the read gives \<open>0, io.EOF\<close>; otherwise
  up to \<open>b\<close> bytes are read without error.
\<close>

definition fileRead :: "string Reader" where
  "fileRead rest b =
     (if b = 0 then (([], None), rest)
      else if rest = [] then (([], Some EOF), rest)
      else ((take b rest, None), drop b rest))"

text \<open>
  Reading an open directory fails with \<open>is a directory\<close>; a zero-length buffer reads
  nothing, as for a file.
\<close>

definition dirRead :: "string \<Rightarrow> string Reader" where
  "dirRead path st b =
     (if b = 0 then (([], None), st)
      else (([], Some (PathError ''read'' path EISDIR)), st))"

text \<open>The reader and its first state for what \<open>os.Open\<close> opened under a path.\<close>

definition handleRead :: "string \<Rightarrow> node \<Rightarrow> string Reader" where
  "handleRead path nd = (case nd of RegularFile c \<Rightarrow> fileRead | Directory \<Rightarrow> dirRead path)"

definition handleState :: "node \<Rightarrow> string" where
  "handleState nd = (case nd of RegularFile c \<Rightarrow> c | Directory \<Rightarrow> [])"

text \<open>Writing to a file that accepts every write: the bytes are appended.\<close>

definition fileWrite :: "string Writer" where
  "fileWrite content p = (content @ p, None)"

text \<open>The buffer after a read: the bytes read overwrite its front, the rest stays.\<close>

definition fill :: "string \<Rightarrow> string \<Rightarrow> string" where
  "fill buff d = take (length buff) (d @ drop (length d) buff)"

text \<open>
  The loop of \<open>write\<close>. The whole buffer is written on each round, and the result of
  \<open>w.Write\<close> is dropped. The loop has no bound of its own, so not returning is \<open>None\<close>.
\<close>

partial_function (option) writeLoop ::
  "'s Reader \<Rightarrow> 'w Writer \<Rightarrow> 's \<Rightarrow> 'w \<Rightarrow> string \<Rightarrow> (error option \<times> 'w) option" where
  "writeLoop rd wr f w buff =
     (case rd f (length buff) of
        ((d, err), f') \<Rightarrow>
          if err = Some EOF \<and> length d = 0 then Some (None, w)
          else if err \<noteq> None then Some (err, w)
          else writeLoop rd wr f' (fst (wr w (fill buff d))) (fill buff d))"

declare writeLoop.simps [code]

text \<open>The helper \<open>write\<close> of the source (\<open>write\<close> alone is a keyword here).\<close>

definition write_helper ::
  "'s Reader \<Rightarrow> 's \<Rightarrow> 'w Writer \<Rightarrow> 'w \<Rightarrow> nat \<Rightarrow> (error option \<times> 'w) option" where
  "write_helper rd f wr w buffSize = writeLoop rd wr f w (replicate buffSize (CHR 0x00))"

subsection \<open>HTTP requests and responses\<close>

record ResponseWriter =
  wroteHeader :: bool
  status :: nat
  header :: "(string \<times> string) list"
  body :: string

definition newResponse :: ResponseWriter where
  "newResponse = \<lparr>wroteHeader = False, status = 200, header = [], body = []\<rparr>"

definition hDel :: "string \<Rightarrow> (string \<times> string) list \<Rightarrow> (string \<times> string) list" where
  "hDel k h = filter (\<lambda>kv. fst kv \<noteq> k) h"

definition hSet :: "string \<Rightarrow> string \<Rightarrow> (string \<times> string) list \<Rightarrow> (string \<times> string) list" where
  "hSet k v h = hDel k h @ [(k, v)]"

definition hAdd :: "string \<Rightarrow> string \<Rightarrow> (string \<times> string) list \<Rightarrow> (string \<times> string) list" where
  "hAdd k v h = h @ [(k, v)]"

definition hValues :: "string \<Rightarrow> (string \<times> string) list \<Rightarrow> string list" where
  "hValues k h = map snd (filter (\<lambda>kv. fst kv = k) h)"

text \<open>
  \<open>w.Write\<close>: the first write sends the header with status 200; the bytes are appended.
  The header holds what the handlers put there; the content type that the server itself
  guesses from the bytes when the handler has set none is not part of the handlers.
\<close>

definition rwWrite :: "ResponseWriter Writer" where
  "rwWrite w p =
     (w\<lparr>wroteHeader := True,
        status := (if wroteHeader w then status w else 200),
        body := body w @ p\<rparr>, None)"

text \<open>
  \<open>http.Error\<close>: sets the plain-text headers, sends the status code (kept only when no
  header was sent before) and prints the message with a newline.
\<close>

definition httpError :: "ResponseWriter \<Rightarrow> string \<Rightarrow> nat \<Rightarrow> ResponseWriter" where
  "httpError w msg code =
     w\<lparr>wroteHeader := True,
       status := (if wroteHeader w then status w else code),
       header := hSet ''X-Content-Type-Options'' ''nosniff''
                  (hSet ''Content-Type'' ''text/plain; charset=utf-8''
                    (hDel ''Content-Length'' (header w))),
       body := body w @ msg @ [CHR 0x0A]\<rparr>"

definition StatusBadRequest :: nat where
  "StatusBadRequest = 400"

definition StatusInternalServerError :: nat where
  "StatusInternalServerError = 500"

text \<open>
  The part of a request the handlers read: whether \<open>ParseMultipartForm\<close> succeeds, the
  uploaded form files by field name, the URL query values by name, the request's own
  header, and the decoded \<open>filenames\<close> of a JSON body (\<open>None\<close> when decoding fails).
\<close>

record 's FormFile =
  uploaded :: "'s Reader"
  uploadedState :: 's
  Filename :: string
  HeaderContentType :: "string list"

record 's Request =
  parseOK :: bool
  formFile :: "string \<rightharpoonup> 's FormFile"
  query :: "string \<Rightarrow> string list"
  reqHeader :: "(string \<times> string) list"
  jsonFilenames :: "string list option"

subsection \<open>Standard library: \<open>ioutil.TempFile\<close>\<close>

definition star :: char where
  "star = CHR ''*''"

definition prefixAndSuffix :: "string \<Rightarrow> string \<times> string" where
  "prefixAndSuffix pattern =
     (if star \<in> set pattern
      then (let suf = rev (takeWhile (\<lambda>c. c \<noteq> star) (rev pattern))
            in (take (length pattern - length suf - 1) pattern, suf))
      else (pattern, []))"

definition joinPath :: "string \<Rightarrow> string \<Rightarrow> string" where
  "joinPath dir name =
     (if dir \<noteq> [] \<and> last dir = slash then dir @ name else dir @ ''/'' @ name)"

definition TempDir :: string where
  "TempDir = ''/tmp''"

text \<open>
  \<open>TempFile\<close> replaces the last \<open>*\<close> of the pattern by a random string and creates the
  first such file that does not exist yet, empty. The random strings it tries are the list
  \<open>rnds\<close>, given by the environment; when all of them are taken the call fails. It fails at
  the first name when the directory does not exist or is not a directory. The name it
  returns is the directory path joined with the file name, as \<open>os.CreateTemp\<close> builds it.
\<close>

definition TempFile :: "fs \<Rightarrow> string \<Rightarrow> string \<Rightarrow> string list \<Rightarrow> error + (string \<times> fs)" where
  "TempFile files dir pattern rnds =
     (let d = (if dir = [] then TempDir else dir);
          ps = prefixAndSuffix pattern;
          names = map (\<lambda>r. joinPath d (fst ps @ r @ snd ps)) rnds
      in case names of
           [] \<Rightarrow> Inl ErrExist
         | nm # rest \<Rightarrow>
             (case fsLookup files d of
                None \<Rightarrow> Inl (PathError ''open'' nm ENOENT)
              | Some (RegularFile c) \<Rightarrow> Inl (PathError ''open'' nm ENOTDIR)
              | Some Directory \<Rightarrow>
                  (case find (\<lambda>p. fsLookup files p = None) names of
                     None \<Rightarrow> Inl ErrExist
                   | Some p \<Rightarrow> Inr (p, files(Clean p \<mapsto> RegularFile [])))))"

subsection \<open>Upload\<close>

record downloadedFile =
  name :: string
  contentType :: "string list"

definition downloadFromRequest ::
  "NimbusHTTPFormImpl \<Rightarrow> fs \<Rightarrow> 's Request \<Rightarrow> string \<Rightarrow> string list
     \<Rightarrow> ((error + downloadedFile) \<times> fs) option" where
  "downloadFromRequest n files r fileKey rnds =
     (case formFile r fileKey of
        None \<Rightarrow> Some (Inl ErrFormFile, files)
      | Some ff \<Rightarrow>
          let fExt = Ext (Filename ff)
          in (case isExtAllowed n fExt of
               Some e \<Rightarrow> Some (Inl e, files)
             | None \<Rightarrow>
                 (case TempFile files (tmpDir n) (star # fExt) rnds of
                    Inl e \<Rightarrow> Some (Inl e, files)
                  | Inr (nm, files') \<Rightarrow>
                      (case write_helper (uploaded ff) (uploadedState ff) fileWrite []
                              (tBuffSize n) of
                         None \<Rightarrow> None
                       | Some (Some e, content) \<Rightarrow>
                           Some (Inl e, files'(Clean nm \<mapsto> RegularFile content))
                       | Some (None, content) \<Rightarrow>
                           Some (Inr \<lparr>name = nm, contentType = HeaderContentType ff\<rparr>,
                                 files'(Clean nm \<mapsto> RegularFile content))))))"

definition Upload ::
  "NimbusHTTPFormImpl \<Rightarrow> fs \<Rightarrow> ResponseWriter \<Rightarrow> 's Request \<Rightarrow> string list
     \<Rightarrow> (ResponseWriter \<times> NimbusHTTPFormImpl \<times> fs) option" where
  "Upload n files w r rnds =
     (if \<not> parseOK r
      then Some (httpError w ''error parsing form'' StatusBadRequest, n, files)
      else case downloadFromRequest n files r (dfk n) rnds of
             None \<Rightarrow> None
           | Some (Inl err, files') \<Rightarrow>
               Some (httpError w (Error err) StatusInternalServerError, n, files')
           | Some (Inr df, files') \<Rightarrow>
               Some (fst (rwWrite w (Base (name df))),
                     n\<lparr>mimeCache := (mimeCache n)(name df \<mapsto> contentType df)\<rparr>,
                     files'))"

subsection \<open>Download\<close>

text \<open>
  The content types found in the cache under the raw query value are added to the header
  of the request \<open>r\<close>, as the source does; the request is returned with the response.
  \<open>os.Open\<close> opens a directory as well as a file; reading it is what fails.
\<close>

definition Download ::
  "NimbusHTTPFormImpl \<Rightarrow> fs \<Rightarrow> ResponseWriter \<Rightarrow> 's Request
     \<Rightarrow> (ResponseWriter \<times> 's Request) option" where
  "Download n files w r =
     (let fls = query r (dfk n)
      in if length fls = 0
         then Some (httpError w ''expected file name'' StatusBadRequest, r)
         else let fName = tmpFilePath n (fls ! 0)
              in case fsLookup files fName of
                   None \<Rightarrow>
                     Some (httpError w (''cannot open: '' @ Base fName) StatusBadRequest, r)
                 | Some nd \<Rightarrow>
                     let r' = r\<lparr>reqHeader :=
                                 foldl (\<lambda>h t. hAdd ''Content-Type'' t h) (reqHeader r)
                                   (case mimeCache n (fls ! 0) of None \<Rightarrow> [] | Some ts \<Rightarrow> ts)\<rparr>
                     in (case write_helper (handleRead fName nd) (handleState nd) rwWrite w
                                   (tBuffSize n) of
                           None \<Rightarrow> None
                         | Some (Some e, w') \<Rightarrow>
                             Some (httpError w' (''cannot write: '' @ Base fName)
                                     StatusInternalServerError, r')
                         | Some (None, w') \<Rightarrow> Some (w', r')))"

subsection \<open>Delete\<close>

text \<open>
  \<open>os.Remove\<close> removes a regular file. On a directory it answers what \<open>rmdir\<close> answers:
  \<open>invalid argument\<close> for a path whose last element is \<open>.\<close>, else \<open>directory not empty\<close>;
  the model has no empty directory that it could remove.
\<close>

definition Delete ::
  "NimbusHTTPFormImpl \<Rightarrow> fs \<Rightarrow> ResponseWriter \<Rightarrow> 's Request
     \<Rightarrow> ResponseWriter \<times> NimbusHTTPFormImpl \<times> fs" where
  "Delete n files w r =
     (let fls = query r (dfk n)
      in if length fls = 0
         then (httpError w ''expected file name'' StatusBadRequest, n, files)
         else let fName = tmpFilePath n (fls ! 0);
                  target = tmpFilePath n fName
              in case fsLookup files target of
                   None \<Rightarrow>
                     (httpError w (''failed to delete file: ''
                                    @ Error (PathError ''remove'' target ENOENT))
                        StatusBadRequest, n, files)
                 | Some Directory \<Rightarrow>
                     (httpError w (''failed to delete file: ''
                                    @ Error (PathError ''remove'' target
                                               (if lastElement target = ''.'' then EINVAL
                                                else ENOTEMPTY)))
                        StatusBadRequest, n, files)
                 | Some (RegularFile c) \<Rightarrow>
                     (w, n\<lparr>mimeCache := (mimeCache n)(Base fName := None)\<rparr>,
                      files(Clean target := None)))"

subsection \<open>Zipper and DownloadMany\<close>









subsection \<open>The extension policy as the specification words it\<close>

text \<open>
  The three rules of the specification, in its order: an empty extension is rejected with
  \<open>NoExtension\<close> when extension-less files are disallowed; otherwise the allow-all sentinel
  accepts; otherwise the extension is accepted when it is an entry of the allow-list and
  rejected with \<open>ExtensionNotPermitted\<close> when not. \<open>None\<close> is acceptance.
\<close>

definition IsAllowed_spec :: "bool \<Rightarrow> string list \<Rightarrow> string \<Rightarrow> error option" where
  "IsAllowed_spec noExtOK allowList extension =
     (if extension = [] \<and> \<not> noExtOK then Some ErrNoExt
      else if allowList = ExtAll then None
      else if extension \<in> set allowList then None
      else Some ErrExtNotPermitted)"

subsection \<open>Sequences of operations, and concrete stores and requests\<close>

text \<open>A request that carries one file key in the query, under the given field name.\<close>

definition keyRequest :: "string \<Rightarrow> string \<Rightarrow> string Request" where
  "keyRequest field key =
     \<lparr>parseOK = True, formFile = Map.empty,
      query = (\<lambda>k. if k = field then [key] else []),
      reqHeader = [], jsonFilenames = None\<rparr>"

text \<open>A multipart upload of one file, read like an \<open>os.File\<close>.\<close>

definition uploadRequest :: "string \<Rightarrow> string \<Rightarrow> string list \<Rightarrow> string \<Rightarrow> string Request" where
  "uploadRequest field fname ctypes payload =
     \<lparr>parseOK = True,
      formFile = [field \<mapsto> \<lparr>uploaded = fileRead, uploadedState = payload,
                              Filename = fname, HeaderContentType = ctypes\<rparr>],
      query = (\<lambda>k. []), reqHeader = [], jsonFilenames = None\<rparr>"


text \<open>An upload, then a download of the key the upload answered with.\<close>

definition UploadThenDownload ::
  "NimbusHTTPFormImpl \<Rightarrow> fs \<Rightarrow> string Request \<Rightarrow> string list
     \<Rightarrow> (ResponseWriter \<times> string Request) option" where
  "UploadThenDownload n files r rnds =
     (case Upload n files newResponse r rnds of
        None \<Rightarrow> None
      | Some (w, n', files') \<Rightarrow>
          Download n' files' newResponse (keyRequest (dfk n') (body w)))"

text \<open>An upload, then a delete of the key the upload answered with.\<close>

definition UploadThenDelete ::
  "NimbusHTTPFormImpl \<Rightarrow> fs \<Rightarrow> string Request \<Rightarrow> string list
     \<Rightarrow> (ResponseWriter \<times> NimbusHTTPFormImpl \<times> fs) option" where
  "UploadThenDelete n files r rnds =
     (case Upload n files newResponse r rnds of
        None \<Rightarrow> None
      | Some (w, n', files') \<Rightarrow>
          Some (Delete n' files' newResponse (keyRequest (dfk n') (body w))))"

text \<open>
  The store of the example program, but with a copy buffer of 4 bytes and \<open>.png\<close> as the
  only extension allowed.
\<close>

definition exampleStore :: NimbusHTTPFormImpl where
  "exampleStore = NewHTTPFormImpl ''_file_'' 10485760 4 ''.nimbus_tmp'' [''.png''] False"

definition photoUpload :: "string Request" where
  "photoUpload = uploadRequest ''_file_'' ''photo.png'' [''image/png''] ''abcde''"

definition readmeUpload :: "string Request" where
  "readmeUpload = uploadRequest ''_file_'' ''README'' [''text/plain''] ''abcde''"

definition notesUpload :: "string Request" where
  "notesUpload = uploadRequest ''_file_'' ''notes.txt'' [''text/plain''] ''abcde''"

text \<open>
  The file system of the example: the working directory and in it the backing directory,
  empty, with one stored file, or with a file that has the directory's own name.
\<close>

definition emptyBackingDir :: fs where
  "emptyBackingDir = [''.'' \<mapsto> Directory, ''.nimbus_tmp'' \<mapsto> Directory]"

definition oneStoredFile :: fs where
  "oneStoredFile = emptyBackingDir(''.nimbus_tmp/123.png'' \<mapsto> RegularFile ''abcd'')"

definition namesakeFile :: fs where
  "namesakeFile = emptyBackingDir(''.nimbus_tmp/.nimbus_tmp'' \<mapsto> RegularFile ''abcd'')"

text \<open>A writer whose every \<open>Write\<close> fails and stores nothing (a full disk, a closed connection).\<close>

definition failingWrite :: "string Writer" where
  "failingWrite content p = (content, Some (ErrIO ''no space left on device''))"

text \<open>
  A reader that hands out its last bytes together with \<open>io.EOF\<close>, as the contract of
  \<open>io.Reader\<close> allows.
\<close>

definition eagerEOFRead :: "string Reader" where
  "eagerEOFRead rest b =
     (if rest = [] then (([], Some EOF), rest)
      else if length rest \<le> b then ((rest, Some EOF), [])
      else ((take b rest, None), drop b rest))"


section \<open>Properties\<close>

subsection \<open>Paths\<close>

lemma lastElement_no_slash: "slash \<notin> set (lastElement p)"
  unfolding lastElement_def by (auto dest: set_takeWhileD)

lemma Base_nonempty: "Base k \<noteq> []"
  by (simp add: Base_def Let_def)

lemma Base_no_slash: "Base k = ''/'' \<or> slash \<notin> set (Base k)"
  unfolding Base_def Let_def using lastElement_no_slash [of "stripTrailingSlashes k"]
  by (auto simp add: slash_def)

lemma stripTrailingSlashes_append:
  "q \<noteq> [] \<Longrightarrow> slash \<notin> set q \<Longrightarrow> stripTrailingSlashes (p @ q) = p @ q"
  unfolding stripTrailingSlashes_def
  by (cases q rule: rev_cases) auto

lemma lastElement_append:
  assumes "slash \<notin> set q"
  shows "lastElement (p @ slash # q) = q"
proof -
  have "takeWhile (\<lambda>c. c \<noteq> slash) (rev q @ slash # rev p) = rev q"
    using assms by (subst takeWhile_append2) auto
  then show ?thesis by (simp add: lastElement_def)
qed

lemma lastElement_whole:
  assumes "slash \<notin> set q"
  shows "lastElement q = q"
proof -
  have "takeWhile (\<lambda>c. c \<noteq> slash) (rev q) = rev q"
    by (rule takeWhile_eq_all_conv [THEN iffD2]) (use assms in auto)
  then show ?thesis unfolding lastElement_def by (simp only: rev_rev_ident)
qed

lemma Base_join:
  assumes "q \<noteq> []" and "slash \<notin> set q"
  shows "Base (d @ ''/'' @ q) = q"
proof -
  have "stripTrailingSlashes ((d @ [slash]) @ q) = (d @ [slash]) @ q"
    using assms by (rule stripTrailingSlashes_append)
  then have "lastElement (stripTrailingSlashes (d @ ''/'' @ q)) = q"
    using assms(2) by (simp add: slash_def lastElement_append [unfolded slash_def])
  then show ?thesis
    using assms(1) by (simp add: Base_def Let_def)
qed

lemma Base_plain:
  assumes "q \<noteq> []" and "slash \<notin> set q"
  shows "Base q = q"
proof -
  have "stripTrailingSlashes ([] @ q) = [] @ q"
    using assms by (rule stripTrailingSlashes_append)
  then show ?thesis
    using assms by (simp add: Base_def Let_def lastElement_whole)
qed

lemma Base_root: "Base ''/'' = ''/''"
  by (simp add: Base_def stripTrailingSlashes_def lastElement_def slash_def)

lemma Base_idem: "Base (Base k) = Base k"
  using Base_no_slash [of k] Base_nonempty [of k] Base_plain [of "Base k"] Base_root
  by auto

text \<open>
  Resolving a resolved path again gives the same path for every key whose base name is not
  \<open>/\<close>, that is, for every key that is not made of slashes only.
\<close>

lemma tmpFilePath_idem:
  assumes "Base k \<noteq> ''/''"
  shows "tmpFilePath n (tmpFilePath n k) = tmpFilePath n k"
proof -
  have "slash \<notin> set (Base k)" using assms Base_no_slash [of k] by simp
  then have "Base (tmpDir n @ ''/'' @ Base k) = Base k"
    by (rule Base_join [OF Base_nonempty])
  then show ?thesis by (simp add: tmpFilePath_def)
qed

subsection \<open>The extension policy\<close>

lemma extLoop_mem: "extLoop ext es = (ext \<in> set es)"
  by (induction es) auto

lemma sentinel_iff: "(length es = Suc 0 \<and> es ! 0 = s) = (es = [s])"
  by (cases es) auto

text \<open>
  C7. For every extension and every configuration, \<open>isExtAllowed\<close> decides exactly as the
  three ordered rules of the specification do: \<open>NoExtension\<close> for an empty extension when
  extension-less files are disallowed, else acceptance under the allow-all sentinel, else
  acceptance exactly when the extension is literally an entry of the allow-list, and
  \<open>ExtensionNotPermitted\<close> otherwise.
\<close>

theorem isExtAllowed_refines_spec:
  "isExtAllowed n ext = IsAllowed_spec (allowNoExt n) (allowedExtensions n) ext"
  by (simp add: isExtAllowed_def IsAllowed_spec_def ExtAll_def extLoop_mem sentinel_iff)

text \<open>
  C10. The sentinel counts only when the allow-list is exactly the one-element list
  \<open>_all_\<close>: with any other allow-list, also one that holds \<open>_all_\<close> among other entries, an
  extension is accepted exactly when it passes the no-extension rule and is literally an
  entry of the list.
\<close>

theorem sentinel_only_alone:
  "allowedExtensions n \<noteq> ExtAll \<Longrightarrow>
     (isExtAllowed n ext = None) =
       ((ext \<noteq> [] \<or> allowNoExt n) \<and> ext \<in> set (allowedExtensions n))"
  by (auto simp add: isExtAllowed_def ExtAll_def extLoop_mem sentinel_iff)

theorem sentinel_only_alone_witness:
  "[''_all_'', ''.png''] \<noteq> ExtAll \<and>
   isExtAllowed
     (NewHTTPFormImpl ''_file_'' 10485760 256 ''.nimbus_tmp'' [''_all_'', ''.png''] False)
     ''.txt'' \<noteq> None"
  using sentinel_only_alone
    [of "NewHTTPFormImpl ''_file_'' 10485760 256 ''.nimbus_tmp'' [''_all_'', ''.png''] False"
        "''.txt''"]
  by (simp add: NewHTTPFormImpl_def ExtAll_def)

subsection \<open>Normal forms of paths\<close>

lemma components_nonempty: "components p \<noteq> []"
  by (induction p) (auto split: list.splits)

lemma components_plain: "slash \<notin> set e \<Longrightarrow> components e = [e]"
  by (induction e) auto

lemma components_append: "components (a @ slash # b) = components a @ components b"
proof (induction a)
  case Nil
  then show ?case by simp
next
  case (Cons c cs)
  then show ?case using components_nonempty [of cs]
    by (cases "components cs") auto
qed

lemma isRooted_append: "d \<noteq> [] \<Longrightarrow> isRooted (d @ x) = isRooted d"
  by (cases d) (auto simp add: isRooted_def)

lemma cleanStep_plain: "plainName e \<Longrightarrow> cleanStep rooted st e = st @ [e]"
  by (simp add: cleanStep_def plainName_def)

lemma cleanStack_child:
  assumes "d \<noteq> []" and "plainName e"
  shows "cleanStack (d @ ''/'' @ e) = cleanStack d @ [e]"
proof -
  have "components (d @ ''/'' @ e) = components d @ [e]"
    using assms(2) components_append [of d e] components_plain [of e]
    by (simp add: plainName_def slash_def)
  moreover have "isRooted (d @ ''/'' @ e) = isRooted d"
    using assms(1) by (rule isRooted_append)
  ultimately show ?thesis
    using assms(2) by (simp add: cleanStack_def cleanStep_plain)
qed

lemma plainName_Base:
  assumes "Base k \<noteq> ''.''" and "Base k \<noteq> ''..''" and "Base k \<noteq> ''/''"
  shows "plainName (Base k)"
  using assms Base_nonempty [of k] Base_no_slash [of k] by (simp add: plainName_def)

lemma Base_tmpFilePath:
  assumes "Base k \<noteq> ''/''"
  shows "Base (tmpFilePath n k) = Base k"
proof -
  have "slash \<notin> set (Base k)" using assms Base_no_slash [of k] by simp
  then show ?thesis unfolding tmpFilePath_def by (rule Base_join [OF Base_nonempty])
qed

subsection \<open>Resolving a key twice\<close>

lemma stripTrailingSlashes_two: "stripTrailingSlashes (d @ ''//'') = stripTrailingSlashes d"
  by (simp add: stripTrailingSlashes_def slash_def)

lemma lastElement_strip_nonempty:
  assumes "stripTrailingSlashes d \<noteq> []"
  shows "lastElement (stripTrailingSlashes d) \<noteq> []"
proof -
  let ?xs = "dropWhile (\<lambda>c. c = slash) (rev d)"
  from assms have ne: "?xs \<noteq> []" by (simp add: stripTrailingSlashes_def)
  then have "hd ?xs \<noteq> slash" using hd_dropWhile [of "\<lambda>c. c = slash" "rev d"] by simp
  with ne have "takeWhile (\<lambda>c. c \<noteq> slash) ?xs \<noteq> []" by (cases ?xs) auto
  then show ?thesis by (simp add: lastElement_def stripTrailingSlashes_def)
qed

lemma second_resolution_differs:
  assumes "stripTrailingSlashes (tmpDir n) \<noteq> []"
  shows "tmpFilePath n (tmpFilePath n ''/'') \<noteq> tmpFilePath n ''/''"
proof -
  let ?q = "lastElement (stripTrailingSlashes (tmpDir n))"
  have q: "?q \<noteq> []" using assms by (rule lastElement_strip_nonempty)
  have "Base (tmpDir n @ ''//'') = ?q"
    using q by (simp add: Base_def Let_def stripTrailingSlashes_two)
  moreover have "?q \<noteq> ''/''"
    using lastElement_no_slash [of "stripTrailingSlashes (tmpDir n)"]
    by (auto simp add: slash_def)
  ultimately show ?thesis by (simp add: tmpFilePath_def Base_root)
qed

text \<open>
  \<open>Delete\<close> removes the regular file at the second resolution of the key and drops the
  cache entry of the base name of the first resolution; when nothing is there it says so.
\<close>

lemma Delete_regular:
  assumes "query r (dfk n) = k # ks"
    and "fsLookup files (tmpFilePath n (tmpFilePath n k)) = Some (RegularFile c)"
  shows "Delete n files w r =
           (w, n\<lparr>mimeCache := (mimeCache n)(Base (tmpFilePath n k) := None)\<rparr>,
            files(Clean (tmpFilePath n (tmpFilePath n k)) := None))"
  using assms by (simp add: Delete_def Let_def)

lemma Delete_absent:
  assumes "query r (dfk n) = k # ks"
    and "fsLookup files (tmpFilePath n (tmpFilePath n k)) = None"
  shows "Delete n files w r =
           (httpError w (''failed to delete file: ''
                          @ Error (PathError ''remove'' (tmpFilePath n (tmpFilePath n k)) ENOENT))
              StatusBadRequest, n, files)"
  using assms by (simp add: Delete_def Let_def)

text \<open>
  C5. There is a key whose second resolution differs from its first, and \<open>Delete\<close> acts on
  the second. Whenever the backing directory path is not empty and not made of slashes only,
  the key \<open>/\<close> resolves to the directory path followed by two slashes, which names the
  backing directory itself, and resolving that again gives the directory path joined with
  the directory's own base name. \<open>Delete\<close> of the key \<open>/\<close> removes the regular file stored
  under that second path and leaves what the single resolution names in place; when nothing
  is stored under the second path it answers that this path does not exist. (By
  \<open>tmpFilePath_idem\<close> the keys made of slashes only are the only ones where the two
  resolutions differ.)
\<close>

theorem Delete_removes_other_file:
  "(stripTrailingSlashes (tmpDir n) \<noteq> [] \<longrightarrow>
      tmpFilePath n (tmpFilePath n ''/'') \<noteq> tmpFilePath n ''/'') \<and>
   (query r (dfk n) = ''/'' # ks \<longrightarrow>
    fsLookup files (tmpFilePath n (tmpFilePath n ''/'')) = Some (RegularFile c) \<longrightarrow>
      Delete n files w r =
        (w, n\<lparr>mimeCache := (mimeCache n)(Base (tmpFilePath n ''/'') := None)\<rparr>,
         files(Clean (tmpFilePath n (tmpFilePath n ''/'')) := None)) \<and>
      fsLookup (snd (snd (Delete n files w r))) (tmpFilePath n (tmpFilePath n ''/'')) = None \<and>
      (fsLookup files (tmpFilePath n ''/'') = Some Directory \<longrightarrow>
         fsLookup (snd (snd (Delete n files w r))) (tmpFilePath n ''/'') = Some Directory)) \<and>
   (query r (dfk n) = ''/'' # ks \<longrightarrow>
    fsLookup files (tmpFilePath n (tmpFilePath n ''/'')) = None \<longrightarrow>
      Delete n files w r =
        (httpError w (''failed to delete file: ''
                       @ Error (PathError ''remove'' (tmpFilePath n (tmpFilePath n ''/'')) ENOENT))
           StatusBadRequest, n, files))"
  using second_resolution_differs [of n] Delete_regular [of r n "''/''" ks files c w]
    Delete_absent [of r n "''/''" ks files w]
  by (auto simp add: fsLookup_def)

theorem Delete_removes_other_file_witness:
  "stripTrailingSlashes (tmpDir exampleStore) \<noteq> [] \<and>
   query (keyRequest ''_file_'' ''/'') (dfk exampleStore) = [''/''] \<and>
   tmpFilePath exampleStore ''/'' = ''.nimbus_tmp//'' \<and>
   tmpFilePath exampleStore (tmpFilePath exampleStore ''/'') = ''.nimbus_tmp/.nimbus_tmp'' \<and>
   fsLookup namesakeFile ''.nimbus_tmp//'' = Some Directory \<and>
   fsLookup namesakeFile ''.nimbus_tmp/.nimbus_tmp'' = Some (RegularFile ''abcd'') \<and>
   fst (Delete exampleStore namesakeFile newResponse (keyRequest ''_file_'' ''/'')) = newResponse \<and>
   fsLookup (snd (snd (Delete exampleStore namesakeFile newResponse (keyRequest ''_file_'' ''/''))))
     ''.nimbus_tmp/.nimbus_tmp'' = None \<and>
   fsLookup (snd (snd (Delete exampleStore namesakeFile newResponse (keyRequest ''_file_'' ''/''))))
     ''.nimbus_tmp//'' = Some Directory \<and>
   fsLookup emptyBackingDir ''.nimbus_tmp/.nimbus_tmp'' = None \<and>
   fst (Delete exampleStore emptyBackingDir newResponse (keyRequest ''_file_'' ''/'')) =
     httpError newResponse
       ''failed to delete file: remove .nimbus_tmp/.nimbus_tmp: no such file or directory''
       StatusBadRequest"
proof -
  have h: "stripTrailingSlashes (tmpDir exampleStore) \<noteq> []" by code_simp
  have q: "query (keyRequest ''_file_'' ''/'') (dfk exampleStore) = ''/'' # []"
    by (simp add: keyRequest_def exampleStore_def NewHTTPFormImpl_def)
  have a: "tmpFilePath exampleStore ''/'' = ''.nimbus_tmp//''" by code_simp
  have b: "tmpFilePath exampleStore (tmpFilePath exampleStore ''/'') = ''.nimbus_tmp/.nimbus_tmp''"
    by code_simp
  have b2: "tmpFilePath exampleStore ''.nimbus_tmp//'' = ''.nimbus_tmp/.nimbus_tmp''"
    by code_simp
  have d: "fsLookup namesakeFile ''.nimbus_tmp//'' = Some Directory" by code_simp
  have f: "fsLookup namesakeFile ''.nimbus_tmp/.nimbus_tmp'' = Some (RegularFile ''abcd'')"
    by code_simp
  have e: "fsLookup emptyBackingDir ''.nimbus_tmp/.nimbus_tmp'' = None" by code_simp
  have m: "Error (PathError ''remove'' ''.nimbus_tmp/.nimbus_tmp'' ENOENT) =
             ''remove .nimbus_tmp/.nimbus_tmp: no such file or directory''"
    by (simp add: ENOENT_def)
  note t1 = Delete_removes_other_file
              [of exampleStore "keyRequest ''_file_'' ''/''" "[]" namesakeFile "''abcd''" newResponse,
               unfolded a b2]
  note t2 = Delete_removes_other_file
              [of exampleStore "keyRequest ''_file_'' ''/''" "[]" emptyBackingDir "''abcd''"
                  newResponse, unfolded a b2]
  from t1 q f d have r1:
    "Delete exampleStore namesakeFile newResponse (keyRequest ''_file_'' ''/'') =
       (newResponse,
        exampleStore\<lparr>mimeCache := (mimeCache exampleStore)(Base ''.nimbus_tmp//'' := None)\<rparr>,
        namesakeFile(Clean ''.nimbus_tmp/.nimbus_tmp'' := None))"
    by blast
  from t1 q f d have r2:
    "fsLookup (snd (snd (Delete exampleStore namesakeFile newResponse
                               (keyRequest ''_file_'' ''/'')))) ''.nimbus_tmp/.nimbus_tmp'' = None"
    by blast
  from t1 q f d have r3:
    "fsLookup (snd (snd (Delete exampleStore namesakeFile newResponse
                               (keyRequest ''_file_'' ''/'')))) ''.nimbus_tmp//'' = Some Directory"
    by blast
  from t2 q e have r4:
    "Delete exampleStore emptyBackingDir newResponse (keyRequest ''_file_'' ''/'') =
       (httpError newResponse
          (''failed to delete file: ''
             @ Error (PathError ''remove'' ''.nimbus_tmp/.nimbus_tmp'' ENOENT))
          StatusBadRequest, exampleStore, emptyBackingDir)"
    by blast
  have r1': "fst (Delete exampleStore namesakeFile newResponse (keyRequest ''_file_'' ''/''))
               = newResponse"
    by (simp add: r1)
  have r4': "fst (Delete exampleStore emptyBackingDir newResponse (keyRequest ''_file_'' ''/'')) =
     httpError newResponse
       ''failed to delete file: remove .nimbus_tmp/.nimbus_tmp: no such file or directory''
       StatusBadRequest"
    by (simp add: r4 ENOENT_def)
  show ?thesis using h q a b d f e r1' r2 r3 r4' by blast
qed

subsection \<open>The copy loop on aligned files\<close>

lemma fill_full: "length d = length buff \<Longrightarrow> fill buff d = d"
  by (simp add: fill_def)

text \<open>
  Copying a file whose length is a multiple of the (non-zero) buffer length returns without
  error, and a writer that appends has received exactly the bytes of the file. \<open>absw\<close>
  reads the bytes a writer state holds.
\<close>

lemma writeLoop_fileRead_aligned:
  assumes app: "\<And>w p. absw (fst (wr w p)) = absw w @ p"
  shows "buff \<noteq> [] \<Longrightarrow> length data = k * length buff \<Longrightarrow>
         \<exists>w'. writeLoop fileRead wr data w buff = Some (None, w') \<and> absw w' = absw w @ data"
proof (induction k arbitrary: data w buff)
  case 0
  then show ?case
    by (subst writeLoop.simps) (simp add: fileRead_def)
next
  case (Suc k)
  let ?b = "length buff"
  let ?d = "take ?b data"
  from Suc.prems have b: "0 < ?b" by simp
  from Suc.prems have len: "?b \<le> length data" by simp
  then have ld: "length ?d = ?b" by simp
  have ne: "data \<noteq> []" using b len by auto
  have f: "fill buff ?d = ?d" using ld by (rule fill_full)
  have rest: "length (drop ?b data) = k * length ?d" using Suc.prems ld by simp
  have dne: "?d \<noteq> []" using ld b by auto
  from Suc.IH [OF dne rest, of "fst (wr w ?d)"]
  obtain w' where w': "writeLoop fileRead wr (drop ?b data) (fst (wr w ?d)) ?d = Some (None, w')"
    and a: "absw w' = absw (fst (wr w ?d)) @ drop ?b data" by blast
  have "writeLoop fileRead wr data w buff = Some (None, w')"
    using b ne f w' by (subst writeLoop.simps) (simp add: fileRead_def)
  moreover have "absw w' = absw w @ data" using a app [of w ?d] by simp
  ultimately show ?case by blast
qed

lemma write_helper_aligned_response:
  assumes "0 < b" and "b dvd length data"
  shows "\<exists>w'. write_helper fileRead data rwWrite w b = Some (None, w') \<and>
              body w' = body w @ data"
proof -
  from assms(2) obtain k where k: "length data = k * length (replicate b (CHR 0x00))"
    by (auto simp add: dvd_def mult.commute)
  have ne: "replicate b (CHR 0x00) \<noteq> []" using assms(1) by simp
  from writeLoop_fileRead_aligned [where absw = body and wr = rwWrite, OF _ ne k, of w]
  show ?thesis by (auto simp add: write_helper_def rwWrite_def)
qed

subsection \<open>Download\<close>

lemma tmpFilePath_Base: "tmpFilePath n (Base k) = tmpFilePath n k"
  by (simp add: tmpFilePath_def Base_idem)

lemma Download_response_by_base:
  assumes "query r (dfk n) = k # ks"
  shows "map_option fst (Download n files w r) =
         map_option fst (Download n files w (r\<lparr>query := (query r)(dfk n := Base k # ks)\<rparr>))"
  using assms
  by (simp add: Download_def Let_def tmpFilePath_Base split: option.splits prod.splits)

lemma Download_absent:
  assumes "query r (dfk n) = k # ks" and "fsLookup files (tmpFilePath n k) = None"
  shows "Download n files w r =
           Some (httpError w (''cannot open: '' @ Base (tmpFilePath n k)) StatusBadRequest, r)"
  using assms by (simp add: Download_def Let_def)

lemma Download_regular:
  assumes "query r (dfk n) = k # ks"
    and "fsLookup files (tmpFilePath n k) = Some (RegularFile content)"
  shows "map_option fst (Download n files w r) =
           (case write_helper fileRead content rwWrite w (tBuffSize n) of
              None \<Rightarrow> None
            | Some (None, w') \<Rightarrow> Some w'
            | Some (Some e, w') \<Rightarrow>
                Some (httpError w' (''cannot write: '' @ Base (tmpFilePath n k))
                        StatusInternalServerError))"
  using assms
  by (simp add: Download_def Let_def handleRead_def handleState_def
        split: option.splits prod.splits)

lemma Download_regular_aligned:
  assumes "query r (dfk n) = k # ks"
    and "fsLookup files (tmpFilePath n k) = Some (RegularFile content)"
    and "0 < tBuffSize n" and "tBuffSize n dvd length content"
  shows "map_option (body \<circ> fst) (Download n files w r) = Some (body w @ content)"
proof -
  from write_helper_aligned_response [OF assms(3,4), of w]
  obtain w' where "write_helper fileRead content rwWrite w (tBuffSize n) = Some (None, w')"
    and "body w' = body w @ content" by blast
  with Download_regular [OF assms(1,2), of w]
  have "map_option fst (Download n files w r) = Some w'" by simp
  then show ?thesis using \<open>body w' = body w @ content\<close>
    by (cases "Download n files w r") auto
qed

text \<open>
  C6, amended. For every requested key whose last path element (\<open>path.Base\<close>) is not \<open>.\<close>,
  \<open>..\<close> or \<open>/\<close>, \<open>Download\<close> resolves it to a path strictly within the backing directory
  (whose path is not empty): the directory path, a slash, and that element, which is one plain name, so that the normal
  form of the resolved path is the normal form of the backing directory followed by exactly
  that name. A key with directory or traversal segments is not rejected: the response is the
  one for its last path element. It is the cannot-open response when nothing is stored
  under the resolved path; when a regular file is stored there, the response is what the
  copy loop makes of the bytes of that file, which for a length that is a multiple of the
  buffer size is these bytes.
\<close>

theorem Download_resolves_to_base:
  assumes "query r (dfk n) = k # ks"
    and "Base k \<noteq> ''.''" and "Base k \<noteq> ''..''" and "Base k \<noteq> ''/''"
    and "tmpDir n \<noteq> []"
  shows "tmpFilePath n k = tmpDir n @ ''/'' @ Base k \<and>
         plainName (Base k) \<and>
         cleanStack (tmpFilePath n k) = cleanStack (tmpDir n) @ [Base k] \<and>
         isRooted (tmpFilePath n k) = isRooted (tmpDir n) \<and>
         map_option fst (Download n files w r) =
           map_option fst
             (Download n files w (r\<lparr>query := (query r)(dfk n := Base k # ks)\<rparr>)) \<and>
         (fsLookup files (tmpFilePath n k) = None \<longrightarrow>
            Download n files w r =
              Some (httpError w (''cannot open: '' @ Base k) StatusBadRequest, r)) \<and>
         (fsLookup files (tmpFilePath n k) = Some (RegularFile content) \<longrightarrow>
            map_option fst (Download n files w r) =
              (case write_helper fileRead content rwWrite w (tBuffSize n) of
                 None \<Rightarrow> None
               | Some (None, w') \<Rightarrow> Some w'
               | Some (Some e, w') \<Rightarrow>
                   Some (httpError w' (''cannot write: '' @ Base k)
                           StatusInternalServerError))) \<and>
         (fsLookup files (tmpFilePath n k) = Some (RegularFile content) \<longrightarrow>
          0 < tBuffSize n \<longrightarrow> tBuffSize n dvd length content \<longrightarrow>
            map_option (body \<circ> fst) (Download n files w r) = Some (body w @ content))"
proof -
  have p: "plainName (Base k)" using assms(2-4) by (rule plainName_Base)
  have b: "Base (tmpFilePath n k) = Base k" using assms(4) by (rule Base_tmpFilePath)
  have c: "cleanStack (tmpFilePath n k) = cleanStack (tmpDir n) @ [Base k]"
    unfolding tmpFilePath_def using assms(5) p by (rule cleanStack_child)
  have r: "isRooted (tmpFilePath n k) = isRooted (tmpDir n)"
    unfolding tmpFilePath_def using assms(5) by (rule isRooted_append)
  have t: "tmpFilePath n k = tmpDir n @ ''/'' @ Base k" by (simp add: tmpFilePath_def)
  note d1 = Download_response_by_base [OF assms(1), of files w]
  note d2 = Download_absent [OF assms(1), of files w, unfolded b]
  note d3 = Download_regular [OF assms(1), of files content w, unfolded b]
  note d4 = Download_regular_aligned [OF assms(1), of files content w]
  show ?thesis
    using t p c r d1 d2 d3 d4 by (intro conjI impI) assumption+
qed

text \<open>
  C6, as the claim states it, fails: the key \<open>../123.png\<close> holds a \<open>..\<close> segment and a
  separator, and \<open>Download\<close> answers it with status 200 and the bytes of the stored file
  \<open>123.png\<close>.
\<close>

theorem Download_traversal_counterexample:
  "map_option (body \<circ> fst)
     (Download exampleStore oneStoredFile newResponse (keyRequest ''_file_'' ''../123.png''))
     = Some ''abcd'' \<and>
   map_option (status \<circ> fst)
     (Download exampleStore oneStoredFile newResponse (keyRequest ''_file_'' ''../123.png''))
     = Some 200"
  by code_simp

theorem Download_resolves_to_base_witness:
  "query (keyRequest ''_file_'' ''../123.png'') (dfk exampleStore) = [''../123.png''] \<and>
   Base ''../123.png'' = ''123.png'' \<and>
   tmpDir exampleStore \<noteq> [] \<and>
   tmpFilePath exampleStore ''../123.png'' = ''.nimbus_tmp/123.png'' \<and>
   cleanStack (tmpFilePath exampleStore ''../123.png'') = [''.nimbus_tmp'', ''123.png''] \<and>
   fsLookup oneStoredFile ''.nimbus_tmp/123.png'' = Some (RegularFile ''abcd'') \<and>
   0 < tBuffSize exampleStore \<and> tBuffSize exampleStore dvd length ''abcd'' \<and>
   map_option (body \<circ> fst)
     (Download exampleStore oneStoredFile newResponse (keyRequest ''_file_'' ''../123.png''))
     = Some ''abcd'' \<and>
   query (keyRequest ''_file_'' ''../gone.png'') (dfk exampleStore) = [''../gone.png''] \<and>
   Base ''../gone.png'' = ''gone.png'' \<and>
   fsLookup oneStoredFile (tmpFilePath exampleStore ''../gone.png'') = None \<and>
   Download exampleStore oneStoredFile newResponse (keyRequest ''_file_'' ''../gone.png'') =
     Some (httpError newResponse ''cannot open: gone.png'' StatusBadRequest,
           keyRequest ''_file_'' ''../gone.png'')"
proof -
  have q1: "query (keyRequest ''_file_'' ''../123.png'') (dfk exampleStore) = ''../123.png'' # []"
    by (simp add: keyRequest_def exampleStore_def NewHTTPFormImpl_def)
  have q2: "query (keyRequest ''_file_'' ''../gone.png'') (dfk exampleStore) = ''../gone.png'' # []"
    by (simp add: keyRequest_def exampleStore_def NewHTTPFormImpl_def)
  have b1: "Base ''../123.png'' = ''123.png''" by code_simp
  have b2: "Base ''../gone.png'' = ''gone.png''" by code_simp
  have d: "tmpDir exampleStore \<noteq> []" by code_simp
  have p1: "tmpFilePath exampleStore ''../123.png'' = ''.nimbus_tmp/123.png''" by code_simp
  have c0: "cleanStack (tmpDir exampleStore) = [''.nimbus_tmp'']" by code_simp
  have f1: "fsLookup oneStoredFile ''.nimbus_tmp/123.png'' = Some (RegularFile ''abcd'')"
    by code_simp
  have f2: "fsLookup oneStoredFile (tmpFilePath exampleStore ''../gone.png'') = None"
    by code_simp
  have s1: "0 < tBuffSize exampleStore" by code_simp
  have s2: "tBuffSize exampleStore dvd length ''abcd''" by code_simp
  have n1: "Base ''../123.png'' \<noteq> ''.'' \<and> Base ''../123.png'' \<noteq> ''..'' \<and>
            Base ''../123.png'' \<noteq> ''/''"
    by (simp add: b1)
  have n2: "Base ''../gone.png'' \<noteq> ''.'' \<and> Base ''../gone.png'' \<noteq> ''..'' \<and>
            Base ''../gone.png'' \<noteq> ''/''"
    by (simp add: b2)
  note t1 = Download_resolves_to_base
              [where r = "keyRequest ''_file_'' ''../123.png''" and n = exampleStore
                 and k = "''../123.png''" and ks = "[]" and files = oneStoredFile
                 and content = "''abcd''" and w = newResponse, unfolded p1 b1 c0]
  note t2 = Download_resolves_to_base
              [where r = "keyRequest ''_file_'' ''../gone.png''" and n = exampleStore
                 and k = "''../gone.png''" and ks = "[]" and files = oneStoredFile
                 and content = "''abcd''" and w = newResponse, unfolded b2]
  from t1 q1 n1 d f1 s1 s2 have r1:
    "map_option (body \<circ> fst)
       (Download exampleStore oneStoredFile newResponse (keyRequest ''_file_'' ''../123.png''))
       = Some (body newResponse @ ''abcd'')"
    unfolding b1 by blast
  from t1 q1 n1 d have r2:
    "cleanStack ''.nimbus_tmp/123.png'' = [''.nimbus_tmp''] @ [''123.png'']"
    unfolding b1 by blast
  from t2 q2 n2 d f2 have r3:
    "Download exampleStore oneStoredFile newResponse (keyRequest ''_file_'' ''../gone.png'') =
       Some (httpError newResponse (''cannot open: '' @ ''gone.png'') StatusBadRequest,
             keyRequest ''_file_'' ''../gone.png'')"
    unfolding b2 by blast
  have r1': "map_option (body \<circ> fst)
       (Download exampleStore oneStoredFile newResponse (keyRequest ''_file_'' ''../123.png''))
       = Some ''abcd''"
    using r1 by (simp add: newResponse_def)
  show ?thesis using q1 q2 b1 b2 d p1 f1 f2 s1 s2 r1' r2 r3 by simp
qed

subsection \<open>DownloadMany\<close>














subsection \<open>Upload of a rejected extension\<close>

text \<open>
  C9, as the claim states it, fails: the upload of \<open>README\<close> to a store that allows
  \<open>.png\<close> only and no extension-less files is rejected by the policy, and the response
  carries the no-extension message, not the extension-not-permitted one.
\<close>

theorem Upload_no_extension_counterexample:
  "isExtAllowed exampleStore (Ext ''README'') \<noteq> None \<and>
   allowedExtensions exampleStore \<noteq> ExtAll \<and>
   map_option fst (Upload exampleStore oneStoredFile newResponse readmeUpload [''123'']) =
     Some (httpError newResponse ''no-extension files not permitted''
             StatusInternalServerError) \<and>
   map_option fst (Upload exampleStore oneStoredFile newResponse readmeUpload [''123'']) \<noteq>
     Some (httpError newResponse ''file extension not permitted''
             StatusInternalServerError)"
  by code_simp

text \<open>
  C9, amended. For every upload whose derived extension the policy rejects, \<open>Upload\<close> fails
  with the policy's own reason, which is \<open>NoExtension\<close> when the extension is empty and
  extension-less files are disallowed and \<open>ExtensionNotPermitted\<close> otherwise; the file
  system and the store with its cache are unchanged.
\<close>

theorem Upload_rejected_frame:
  assumes "parseOK r"
    and "formFile r (dfk n) = Some ff"
    and "isExtAllowed n (Ext (Filename ff)) = Some e"
  shows "Upload n files w r rnds =
           Some (httpError w (Error e) StatusInternalServerError, n, files) \<and>
         e = (if Ext (Filename ff) = [] \<and> \<not> allowNoExt n then ErrNoExt
              else ErrExtNotPermitted)"
  using assms
  by (auto simp add: Upload_def downloadFromRequest_def Let_def isExtAllowed_def
        split: if_splits)

theorem Upload_rejected_frame_witness:
  "parseOK notesUpload \<and>
   Ext ''notes.txt'' = ''.txt'' \<and>
   isExtAllowed exampleStore ''.txt'' = Some ErrExtNotPermitted \<and>
   Upload exampleStore oneStoredFile newResponse notesUpload [''123''] =
     Some (httpError newResponse ''file extension not permitted'' StatusInternalServerError,
           exampleStore, oneStoredFile)"
proof -
  let ?ff = "\<lparr>uploaded = fileRead, uploadedState = ''abcde'',
              Filename = ''notes.txt'', HeaderContentType = [''text/plain'']\<rparr>"
  have a: "parseOK notesUpload" by (simp add: notesUpload_def uploadRequest_def)
  have b: "formFile notesUpload (dfk exampleStore) = Some ?ff"
    by (simp add: notesUpload_def uploadRequest_def exampleStore_def NewHTTPFormImpl_def)
  have x: "Ext ''notes.txt'' = ''.txt''" by code_simp
  have c: "isExtAllowed exampleStore ''.txt'' = Some ErrExtNotPermitted" by code_simp
  have c': "isExtAllowed exampleStore (Ext (Filename ?ff)) = Some ErrExtNotPermitted"
    using x c by simp
  from Upload_rejected_frame [OF a b c', of oneStoredFile newResponse "[''123'']"]
  show ?thesis using a x c by simp
qed

subsection \<open>The copy loop\<close>

lemma write_helper_aligned:
  assumes "0 < b" and "b dvd length data"
  shows "write_helper fileRead data fileWrite w b = Some (None, w @ data)"
proof -
  from assms(2) obtain k where k: "length data = k * length (replicate b (CHR 0x00))"
    by (auto simp add: dvd_def mult.commute)
  have ne: "replicate b (CHR 0x00) \<noteq> []" using assms(1) by simp
  from writeLoop_fileRead_aligned [where absw = "\<lambda>x. x" and wr = fileWrite, OF _ ne k, of w]
  show ?thesis by (auto simp add: write_helper_def fileWrite_def)
qed

text \<open>With a buffer of length 0 the loop over a file never returns.\<close>

lemma writeLoop_zero_buffer: "writeLoop fileRead wr data w [] = None"
proof (rule ccontr)
  assume "writeLoop fileRead wr data w [] \<noteq> None"
  then obtain y where y: "writeLoop fileRead wr data w [] = Some y" by auto
  have "fileRead = fileRead \<longrightarrow> ([]::string) \<noteq> []"
  proof (rule writeLoop.raw_induct
           [where P = "\<lambda>rd wr f w buff y. rd = fileRead \<longrightarrow> buff \<noteq> []", OF _ y])
    fix loop :: "string Reader \<Rightarrow> 'a Writer \<Rightarrow> string \<Rightarrow> 'a \<Rightarrow> string
                   \<Rightarrow> (error option \<times> 'a) option"
    fix rd wr f w buff rda
    assume IH: "\<And>wr f w buff b y. loop wr f w buff b = Some y \<Longrightarrow> wr = fileRead \<longrightarrow> b \<noteq> []"
      and step: "(case rd f (length buff) of
         ((d, err), f') \<Rightarrow>
           if err = Some EOF \<and> length d = 0 then Some (None, w)
           else if err \<noteq> None then Some (err, w)
           else loop rd wr f' (fst (wr w (fill buff d))) (fill buff d)) = Some rda"
    show "rd = fileRead \<longrightarrow> buff \<noteq> []"
    proof (intro impI notI)
      assume "rd = fileRead" and "buff = []"
      with step have "loop fileRead wr f (fst (wr w [])) [] = Some rda"
        by (simp add: fileRead_def fill_def)
      from IH [OF this] show False by simp
    qed
  qed
  then show False by simp
qed

lemma write_helper_zero_buffer: "write_helper fileRead data wr w 0 = None"
  by (simp add: write_helper_def writeLoop_zero_buffer)

text \<open>
  C3, at the failing inputs. With a buffer of 4 bytes: a destination whose every write
  fails makes \<open>write\<close> return no error; a source that gives its last bytes together with
  \<open>io.EOF\<close> makes it return \<open>io.EOF\<close> as an error with nothing written; and a 5-byte source
  read to its clean end leaves 8 bytes in the destination.
\<close>

theorem write_helper_ignores_failures:
  "write_helper fileRead ''abcd'' failingWrite [] 4 = Some (None, []) \<and>
   write_helper eagerEOFRead ''abcd'' fileWrite [] 4 = Some (Some EOF, []) \<and>
   write_helper fileRead ''abcde'' fileWrite [] 4 = Some (None, ''abcdebcd'')"
  by code_simp

subsection \<open>Upload, then download or delete\<close>

text \<open>
  C1, at the failing input. With a copy buffer of 4 bytes, the upload of the 5 bytes
  \<open>abcde\<close> as \<open>photo.png\<close> succeeds with the key \<open>123.png\<close>, and the download of that key
  succeeds with the 8 bytes \<open>abcdebcd\<close>: the last round writes the whole buffer, in which
  the bytes of the round before are still present after the one byte read.
\<close>

theorem roundtrip_pads_last_chunk:
  "map_option fst (Upload exampleStore emptyBackingDir newResponse photoUpload [''123'']) =
     Some (fst (rwWrite newResponse ''123.png'')) \<and>
   map_option (body \<circ> fst) (UploadThenDownload exampleStore emptyBackingDir photoUpload [''123'']) =
     Some ''abcdebcd'' \<and>
   map_option (status \<circ> fst) (UploadThenDownload exampleStore emptyBackingDir photoUpload [''123'']) =
     Some 200"
  by code_simp

text \<open>
  C2, at the failing input. The upload with content type \<open>image/png\<close> answers with the key
  \<open>123.png\<close> but records the content type under the path \<open>.nimbus_tmp/123.png\<close>, so the
  download of the key finds nothing in the cache and its response has no content type. Even
  with the content type cached under the key, the download adds it to the header of the
  request, and the response still has none.
\<close>

theorem content_type_not_returned:
  "(case Upload exampleStore emptyBackingDir newResponse photoUpload [''123''] of
      None \<Rightarrow> False
    | Some (w, n', files') \<Rightarrow>
        body w = ''123.png'' \<and>
        mimeCache n' ''.nimbus_tmp/123.png'' = Some [''image/png''] \<and>
        mimeCache n' ''123.png'' = None) \<and>
   (case UploadThenDownload exampleStore emptyBackingDir photoUpload [''123''] of
      None \<Rightarrow> False
    | Some (w, r) \<Rightarrow>
        status w = 200 \<and> hValues ''Content-Type'' (header w) = [] \<and>
        hValues ''Content-Type'' (reqHeader r) = []) \<and>
   (case Download (exampleStore\<lparr>mimeCache := [''123.png'' \<mapsto> [''image/png'']]\<rparr>)
            oneStoredFile newResponse (keyRequest ''_file_'' ''123.png'') of
      None \<Rightarrow> False
    | Some (w, r) \<Rightarrow>
        status w = 200 \<and> hValues ''Content-Type'' (header w) = [] \<and>
        hValues ''Content-Type'' (reqHeader r) = [''image/png''])"
  by code_simp

text \<open>
  C4, at the failing input. After the upload the only cache key is the path
  \<open>.nimbus_tmp/123.png\<close>, which is not the key \<open>123.png\<close> the upload answered with. The
  delete of that key succeeds and removes the file, and the cache entry is still there.
\<close>

theorem cache_outlives_deleted_file:
  "(case Upload exampleStore emptyBackingDir newResponse photoUpload [''123''] of
      None \<Rightarrow> False
    | Some (w, n', files') \<Rightarrow>
        body w = ''123.png'' \<and>
        fsLookup files' ''.nimbus_tmp/123.png'' = Some (RegularFile ''abcdebcd'') \<and>
        mimeCache n' ''.nimbus_tmp/123.png'' = Some [''image/png''] \<and>
        mimeCache n' ''123.png'' = None) \<and>
   (case UploadThenDelete exampleStore emptyBackingDir photoUpload [''123''] of
      None \<Rightarrow> False
    | Some (w, n', files') \<Rightarrow>
        w = newResponse \<and>
        fsLookup files' ''.nimbus_tmp/123.png'' = None \<and>
        mimeCache n' ''.nimbus_tmp/123.png'' = Some [''image/png''])"
  by code_simp

end
